theory Spec2Isabelle
  imports Main "HOL-Library.Sublist"
begin

section \<open>JavaScript values that reach the handlers\<close>

text \<open>
  The Worker of \<^verbatim>\<open>src/index.ts\<close> has three routes of its own: \<^verbatim>\<open>POST /chat\<close>,
  \<^verbatim>\<open>POST /summarize\<close> and \<^verbatim>\<open>GET /summarize/status\<close>. Everything they
  read comes out of \<^verbatim>\<open>JSON.parse\<close> (a request body, the body of a Durable Object
  response) or out of a collaborator, so the values are JSON values. A number is an
  IEEE double, kept as sign, mantissa and binary exponent (the value is
  \<open>\<plusminus> m * 2 ^ e\<close>; both zeros have \<open>m = 0\<close>), or an infinity, which
  \<^verbatim>\<open>JSON.parse\<close> yields on overflow. \<^verbatim>\<open>NaN\<close> and \<^verbatim>\<open>undefined\<close> never come out
  of \<^verbatim>\<open>JSON.parse\<close>; an absent property is \<open>None\<close> in the records below.
  An object is the list of its own properties in enumeration order.
\<close>

datatype jsval =
    JNull
  | JBool bool
  | JNum bool nat int
  | JInf bool
  | JStr string
  | JArr "jsval list"
  | JObj "(string \<times> jsval) list"

text \<open>
  \<^verbatim>\<open>ToBoolean\<close>, the test of \<^verbatim>\<open>v ? a : b\<close> and of \<^verbatim>\<open>!v\<close>: \<^verbatim>\<open>null\<close>,
  \<^verbatim>\<open>false\<close>, both zeros and the empty string are falsy, every other value is truthy
  (arrays and objects also when empty).
\<close>

fun truthy :: "jsval \<Rightarrow> bool" where
  "truthy JNull = False"
| "truthy (JBool b) = b"
| "truthy (JNum neg m e) = (m \<noteq> 0)"
| "truthy (JInf neg) = True"
| "truthy (JStr s) = (s \<noteq> [])"
| "truthy (JArr xs) = True"
| "truthy (JObj kvs) = True"

text \<open>The line feed of the template literals, \<^verbatim>\<open>"\n"\<close>.\<close>

definition nl :: string where
  "nl = [CHR 0x0A]"

text \<open>
  \<^verbatim>\<open>Array.prototype.join(sep)\<close> on an array of strings: the elements in index order
  with \<open>sep\<close> between neighbours, the empty string for the empty array.
\<close>

fun join :: "string \<Rightarrow> string list \<Rightarrow> string" where
  "join sep [] = []"
| "join sep [x] = x"
| "join sep (x # y # ys) = x @ sep @ join sep (y # ys)"

section \<open>Requests, responses and collaborators\<close>

text \<open>
  What \<^verbatim>\<open>c.text(s, code)\<close> and \<^verbatim>\<open>c.json(v)\<close> build: a status code (200 when none
  is given) and a body.
\<close>

datatype body = Text string | Json jsval

record response =
  status :: nat
  body :: body

definition text_response :: "string \<Rightarrow> nat \<Rightarrow> response" where
  "text_response s code = \<lparr>status = code, body = Text s\<rparr>"

definition json_response :: "jsval \<Rightarrow> response" where
  "json_response v = \<lparr>status = 200, body = Json v\<rparr>"

text \<open>
  An awaited call of a collaborator either returns or throws; the handlers catch
  nothing, so a thrown error leaves the handler. The errors of the collaborators carry
  the names of the specification's taxonomy; \<open>SyntaxError\<close> and \<open>TypeError\<close> are
  the errors of the runtime on a body that is not JSON and on a property read off
  \<^verbatim>\<open>null\<close>.
\<close>

datatype error =
    StorageUnavailable | InferenceError | NotFound | WorkflowError | SyntaxError | TypeError

text \<open>
  The snapshot the \<^verbatim>\<open>/chat\<close> handler reads off the Memory Actor's reply, with the
  type the source gives it: \<^verbatim>\<open>{ prof?: unknown; hist?: string[] }\<close>.
\<close>

record mem =
  prof :: "jsval option"
  hist :: "string list option"

text \<open>
  The messages of the Memory Actor's protocol, \<^verbatim>\<open>{ op: "get", userId }\<close> and
  \<^verbatim>\<open>{ op: "append", userId, item }\<close>, and the \<^verbatim>\<open>Response\<close> of a \<^verbatim>\<open>stub.fetch\<close>:
  its status, which the handler never reads, and what \<^verbatim>\<open>r.json()\<close> gives (it throws
  on a body that is not JSON).
\<close>

datatype do_msg = OpGet string | OpAppend string string

record do_response =
  do_status :: nat
  json :: "error + mem"

text \<open>
  A workflow instance as the handlers use it: \<^verbatim>\<open>instance.id\<close> and the outcome of
  \<^verbatim>\<open>await instance.status()\<close>.
\<close>

record wf_instance =
  instance_id :: string
  instance_status :: "error + jsval"

text \<open>
  The outbound calls of a handler, in the order it issues them. \<open>DoFetch name url m\<close> is
  \<^verbatim>\<open>MEMORY_DO.get(MEMORY_DO.idFromName(name)).fetch(url, { method: "POST", body: m })\<close>.
\<close>

datatype call =
    DoFetch string string do_msg
  | LlmChat string
  | FlowCreate "jsval option"
  | FlowGet string
  | InstanceStatus string

text \<open>
  The collaborators of one request. None of them is defined in \<^verbatim>\<open>src/index.ts\<close>, so
  each is a parameter: \<^verbatim>\<open>JSON.stringify\<close> of the runtime, the Durable Object
  namespace \<^verbatim>\<open>MEMORY_DO\<close>, \<^verbatim>\<open>llmChat(c.env.AI, prompt)\<close> of \<^verbatim>\<open>./llm\<close>, and the
  workflow binding \<^verbatim>\<open>SUMMARIZE_FLOW\<close>. A handler calls each at most once per request
  and argument, so a function from the arguments to the outcome covers every behaviour
  of the collaborator on that request.
\<close>

record env =
  JSON_stringify :: "jsval \<Rightarrow> string"
  MEMORY_DO_fetch :: "string \<Rightarrow> string \<Rightarrow> do_msg \<Rightarrow> error + do_response"
  llmChat :: "string \<Rightarrow> error + string"
  SUMMARIZE_FLOW_create :: "jsval option \<Rightarrow> error + wf_instance"
  SUMMARIZE_FLOW_get :: "string \<Rightarrow> error + wf_instance"

section \<open>The handlers\<close>

subsection \<open>POST /chat\<close>

text \<open>
  Lines 72 to 74:
  \<^verbatim>\<open>const history = (mem.hist ?? []).join("\n");\<close>
  \<^verbatim>\<open>const profile = mem.prof ? `User profile: ${JSON.stringify(mem.prof)}\n` : "";\<close>
  \<^verbatim>\<open>const prompt = `${profile}Conversation so far:\n${history}\nUser: ${userMsg}\nAssistant:`;\<close>
\<close>

definition chat_history :: "mem \<Rightarrow> string" where
  "chat_history m = join nl (case hist m of None \<Rightarrow> [] | Some h \<Rightarrow> h)"

definition chat_profile :: "(jsval \<Rightarrow> string) \<Rightarrow> mem \<Rightarrow> string" where
  "chat_profile stringify m =
     (case prof m of
        None \<Rightarrow> []
      | Some p \<Rightarrow> if truthy p then ''User profile: '' @ stringify p @ nl else [])"

definition chat_prompt :: "(jsval \<Rightarrow> string) \<Rightarrow> mem \<Rightarrow> string \<Rightarrow> string" where
  "chat_prompt stringify m userMsg =
     chat_profile stringify m @ ''Conversation so far:'' @ nl @ chat_history m @ nl
       @ ''User: '' @ userMsg @ nl @ ''Assistant:''"

text \<open>The item of line 82: \<^verbatim>\<open>`User: ${userMsg}\nAssistant: ${answer}`\<close>.\<close>

definition chat_item :: "string \<Rightarrow> string \<Rightarrow> string" where
  "chat_item userMsg answer = ''User: '' @ userMsg @ nl @ ''Assistant: '' @ answer"

definition get_call :: "string \<Rightarrow> call" where
  "get_call userId = DoFetch userId ''https://do/get'' (OpGet userId)"

definition append_call :: "string \<Rightarrow> string \<Rightarrow> call" where
  "append_call userId item = DoFetch userId ''https://do/append'' (OpAppend userId item)"

text \<open>
  The handler of lines 62 to 86 on a body that has parsed to \<^verbatim>\<open>{ userId, userMsg }\<close>,
  two strings: what it returns or throws, and the calls it has issued by then. Each
  \<^verbatim>\<open>await\<close> is a case distinction on the outcome of the call: the handler has no
  \<^verbatim>\<open>try\<close>, so an error ends it there. The response of the \<^verbatim>\<open>append\<close> fetch is
  awaited and dropped.
\<close>

definition chat :: "env \<Rightarrow> string \<Rightarrow> string \<Rightarrow> (error + response) \<times> call list" where
  "chat e userId userMsg =
     (case MEMORY_DO_fetch e userId ''https://do/get'' (OpGet userId) of
        Inl err \<Rightarrow> (Inl err, [get_call userId])
      | Inr r \<Rightarrow>
          (case json r of
             Inl err \<Rightarrow> (Inl err, [get_call userId])
           | Inr m \<Rightarrow>
               let prompt = chat_prompt (JSON_stringify e) m userMsg in
               (case llmChat e prompt of
                  Inl err \<Rightarrow> (Inl err, [get_call userId, LlmChat prompt])
                | Inr answer \<Rightarrow>
                    let item = chat_item userMsg answer in
                    (case MEMORY_DO_fetch e userId ''https://do/append'' (OpAppend userId item) of
                       Inl err \<Rightarrow>
                         (Inl err, [get_call userId, LlmChat prompt, append_call userId item])
                     | Inr ack \<Rightarrow>
                         (Inr (json_response (JObj [(''answer'', JStr answer)])),
                          [get_call userId, LlmChat prompt, append_call userId item])))))"

subsection \<open>POST /summarize\<close>

text \<open>
  Reading the property \<open>k\<close> off a parsed body, as the destructuring
  \<^verbatim>\<open>const { url } = v\<close> does: \<^verbatim>\<open>null\<close> throws a \<^verbatim>\<open>TypeError\<close>; an object gives the
  value of the property (the last member of that name in the JSON text), or
  \<^verbatim>\<open>undefined\<close> when it has none; a boolean, a number, a string or an array has no
  property of the names the handlers read, so it gives \<^verbatim>\<open>undefined\<close>.
\<close>

fun read_prop :: "jsval \<Rightarrow> string \<Rightarrow> error + jsval option" where
  "read_prop JNull k = Inl TypeError"
| "read_prop (JObj kvs) k = Inr (map_of (rev kvs) k)"
| "read_prop v k = Inr None"

text \<open>
  Lines 89 to 94. The argument is the outcome of \<^verbatim>\<open>await c.req.json()\<close>, the parsed
  body or the error thrown on a body that is not JSON. Line 90 reads \<^verbatim>\<open>url\<close> off the
  body; the type annotation \<^verbatim>\<open>{ url: string }\<close> checks nothing at run time, so
  \<^verbatim>\<open>url\<close> is whatever the body holds, or \<^verbatim>\<open>undefined\<close> (\<open>None\<close>). The handler hands
  \<^verbatim>\<open>{ url }\<close> to \<^verbatim>\<open>SUMMARIZE_FLOW.create\<close>, asks the instance for its status and
  answers \<^verbatim>\<open>{ id: instance.id, status }\<close>.
\<close>

definition summarize :: "env \<Rightarrow> error + jsval \<Rightarrow> (error + response) \<times> call list" where
  "summarize e parsed_body =
     (case parsed_body of
        Inl err \<Rightarrow> (Inl err, [])
      | Inr v \<Rightarrow>
          (case read_prop v ''url'' of
             Inl err \<Rightarrow> (Inl err, [])
           | Inr url \<Rightarrow>
               (case SUMMARIZE_FLOW_create e url of
                  Inl err \<Rightarrow> (Inl err, [FlowCreate url])
                | Inr inst \<Rightarrow>
                    (case instance_status inst of
                       Inl err \<Rightarrow> (Inl err, [FlowCreate url, InstanceStatus (instance_id inst)])
                     | Inr st \<Rightarrow>
                         (Inr (json_response
                            (JObj [(''id'', JStr (instance_id inst)), (''status'', st)])),
                          [FlowCreate url, InstanceStatus (instance_id inst)])))))"

subsection \<open>GET /summarize/status\<close>

text \<open>
  Lines 97 to 103. \<^verbatim>\<open>c.req.query("id")\<close> is \<^verbatim>\<open>undefined\<close> (\<open>None\<close>) when the query
  has no \<^verbatim>\<open>id\<close>; \<^verbatim>\<open>!id\<close> holds for \<^verbatim>\<open>undefined\<close> and for the empty string.
\<close>

definition summarize_status :: "env \<Rightarrow> string option \<Rightarrow> (error + response) \<times> call list" where
  "summarize_status e q =
     (case q of
        None \<Rightarrow> (Inr (text_response ''missing id'' 400), [])
      | Some ident \<Rightarrow>
          if ident = [] then (Inr (text_response ''missing id'' 400), [])
          else
            (case SUMMARIZE_FLOW_get e ident of
               Inl err \<Rightarrow> (Inl err, [FlowGet ident])
             | Inr inst \<Rightarrow>
                 (case instance_status inst of
                    Inl err \<Rightarrow> (Inl err, [FlowGet ident, InstanceStatus (instance_id inst)])
                  | Inr st \<Rightarrow>
                      (Inr (json_response st),
                       [FlowGet ident, InstanceStatus (instance_id inst)]))))"

subsection \<open>Errors that leave a handler\<close>

text \<open>
  \<^verbatim>\<open>src/index.ts\<close> registers no \<^verbatim>\<open>app.onError\<close>, so an error thrown in a handler
  reaches Hono's default error handler, which answers
  \<^verbatim>\<open>c.text("Internal Server Error", 500)\<close>. \<open>respond\<close> is what the client receives.
\<close>

definition onError :: "error \<Rightarrow> response" where
  "onError err = text_response ''Internal Server Error'' 500"

definition respond :: "error + response \<Rightarrow> response" where
  "respond r = (case r of Inl err \<Rightarrow> onError err | Inr resp \<Rightarrow> resp)"

subsection \<open>Reading a trace\<close>

text \<open>The calls of a trace that carry an \<^verbatim>\<open>append\<close> message to a Memory Actor.\<close>

fun is_append :: "call \<Rightarrow> bool" where
  "is_append (DoFetch name url (OpAppend u item)) = True"
| "is_append c = False"

text \<open>
  \<^verbatim>\<open>s.split("\n")\<close>: the lines of a string, used to say what "one turn per line"
  means.
\<close>

fun split_lines :: "string \<Rightarrow> string list" where
  "split_lines [] = [[]]"
| "split_lines (c # cs) =
     (if c = CHR 0x0A then [] # split_lines cs
      else (case split_lines cs of [] \<Rightarrow> [[c]] | l # ls \<Rightarrow> (c # l) # ls))"

section \<open>The Memory Actor\<close>

text \<open>
  Modelled from the spec: the Memory Actor (\<^verbatim>\<open>MemoryDO\<close> of \<^verbatim>\<open>./memory\<close>, which
  \<^verbatim>\<open>src/index.ts\<close> only imports). One Memory Record per actor, addressed by name, with
  an optional profile and an ordered history; a record that was never written is the
  default one (absent profile, empty history). \<^verbatim>\<open>get\<close> changes nothing;
  \<^verbatim>\<open>append\<close> adds the item at the end of the history of the addressed record and
  touches no other record.
\<close>

record memory_record =
  profile :: "jsval option"
  history :: "string list"

type_synonym store = "string \<Rightarrow> memory_record"

definition fresh_store :: store where
  "fresh_store = (\<lambda>name. \<lparr>profile = None, history = []\<rparr>)"

definition actor_append :: "store \<Rightarrow> string \<Rightarrow> string \<Rightarrow> store" where
  "actor_append st name item = st(name := (st name)\<lparr>history := history (st name) @ [item]\<rparr>)"

text \<open>
  The records after the actors have processed the messages of a trace, in order. Calls
  to the other collaborators leave the records alone.
\<close>

fun deliver :: "call \<Rightarrow> store \<Rightarrow> store" where
  "deliver (DoFetch name url (OpAppend u item)) st = actor_append st name item"
| "deliver c st = st"

definition store_after :: "call list \<Rightarrow> store \<Rightarrow> store" where
  "store_after cs st = fold deliver cs st"

section \<open>Scenarios\<close>

text \<open>
  Concrete collaborators for the examples: the outcome of the \<^verbatim>\<open>get\<close> fetch, of the
  inference call and of the \<^verbatim>\<open>append\<close> fetch are given; the workflow engine knows one
  instance, \<^verbatim>\<open>wf-1\<close>, which is queued. The only value the examples serialise is the
  empty object, and \<^verbatim>\<open>JSON.stringify({})\<close> is \<^verbatim>\<open>{}\<close>.
\<close>

definition replied :: "mem \<Rightarrow> error + do_response" where
  "replied m = Inr \<lparr>do_status = 200, json = Inr m\<rparr>"

definition wf1 :: wf_instance where
  "wf1 = \<lparr>instance_id = ''wf-1'', instance_status = Inr (JStr ''Queued'')\<rparr>"

definition scenario :: "error + do_response \<Rightarrow> error + string \<Rightarrow> error + do_response \<Rightarrow> env" where
  "scenario got answered acked =
     \<lparr>JSON_stringify = (\<lambda>v. ''{}''),
      MEMORY_DO_fetch = (\<lambda>name url m. case m of OpGet u \<Rightarrow> got | OpAppend u item \<Rightarrow> acked),
      llmChat = (\<lambda>prompt. answered),
      SUMMARIZE_FLOW_create = (\<lambda>url. Inr wf1),
      SUMMARIZE_FLOW_get = (\<lambda>ident. if ident = ''wf-1'' then Inr wf1 else Inl NotFound)\<rparr>"

definition empty_mem :: mem where
  "empty_mem = \<lparr>prof = None, hist = Some []\<rparr>"

text \<open>The same collaborators with a Workflow Engine whose \<^verbatim>\<open>create\<close> throws.\<close>

definition engine_down :: "env \<Rightarrow> env" where
  "engine_down e = e\<lparr>SUMMARIZE_FLOW_create := (\<lambda>url. Inl WorkflowError)\<rparr>"

text \<open>
  The same collaborators with another outcome of the \<^verbatim>\<open>get\<close> fetch, and with the
  status of every response of a Memory Actor replaced.
\<close>

definition with_get :: "error + do_response \<Rightarrow> env \<Rightarrow> env" where
  "with_get reply e =
     e\<lparr>MEMORY_DO_fetch :=
         (\<lambda>name url m. case m of OpGet u \<Rightarrow> reply | OpAppend u item \<Rightarrow> MEMORY_DO_fetch e name url m)\<rparr>"

definition with_status :: "nat \<Rightarrow> env \<Rightarrow> env" where
  "with_status code e =
     e\<lparr>MEMORY_DO_fetch :=
         (\<lambda>name url m. case MEMORY_DO_fetch e name url m of
            Inl err \<Rightarrow> Inl err
          | Inr r \<Rightarrow> Inr (r\<lparr>do_status := code\<rparr>))\<rparr>"

text \<open>A plain scenario: an empty memory, the answer \<^verbatim>\<open>hi\<close>, an acknowledged append.\<close>

definition plain :: env where
  "plain = scenario (replied empty_mem) (Inr ''hi'') (replied empty_mem)"

section \<open>GET /summarize/status without an id\<close>

text \<open>
  C7. A \<^verbatim>\<open>GET /summarize/status\<close> request whose query has no \<^verbatim>\<open>id\<close> is answered
  with the text \<^verbatim>\<open>missing id\<close> and status 400, and the handler has issued no call by
  then: the Workflow Engine is not contacted, whatever the collaborators are.
\<close>

theorem summarize_status_missing_id:
  "summarize_status e None = (Inr \<lparr>status = 400, body = Text ''missing id''\<rparr>, [])"
  by (simp add: summarize_status_def text_response_def)

section \<open>The turn appended by /chat\<close>

lemma filter_is_append_chat:
  "filter is_append [get_call u, LlmChat p, append_call u item] = [append_call u item]"
  by (simp add: get_call_def append_call_def)

lemma store_after_chat:
  "store_after [get_call u, LlmChat p, append_call u item] st = actor_append st u item"
  by (simp add: store_after_def get_call_def append_call_def)

lemma store_after_no_append:
  "store_after [get_call u, LlmChat p] st = st"
  by (simp add: store_after_def get_call_def)

text \<open>
  The claim C2 says that, once inference has returned \<open>answer\<close>, the result of the
  handler is \<^verbatim>\<open>{ answer }\<close>. The \<^verbatim>\<open>append\<close> that follows is awaited outside any
  \<^verbatim>\<open>try\<close>: when it throws, the handler has issued its one \<^verbatim>\<open>append\<close>, with the
  item the claim gives, and its result is the error, not \<^verbatim>\<open>{ answer }\<close>.
\<close>

theorem chat_answer_lost_counterexample:
  "chat (scenario (replied empty_mem) (Inr ''fine'') (Inl StorageUnavailable)) ''u7''
      ''how are you'' =
     (Inl StorageUnavailable,
      [DoFetch ''u7'' ''https://do/get'' (OpGet ''u7''),
       LlmChat (''Conversation so far:'' @ nl @ nl @ ''User: how are you'' @ nl @ ''Assistant:''),
       DoFetch ''u7'' ''https://do/append''
         (OpAppend ''u7'' (''User: how are you'' @ nl @ ''Assistant: fine''))])"
  by (simp add: chat_def Let_def scenario_def replied_def empty_mem_def chat_prompt_def
      chat_profile_def chat_history_def chat_item_def get_call_def append_call_def)

text \<open>
  C2, amended. When the \<^verbatim>\<open>get\<close> has returned a snapshot and inference has returned
  \<open>answer\<close>, the handler has issued three calls when it ends: the \<^verbatim>\<open>get\<close>, the
  inference call and exactly one \<^verbatim>\<open>append\<close>, addressed to the actor of \<open>userId\<close>,
  whose item is \<^verbatim>\<open>User: <userMsg>\nAssistant: <answer>\<close>; this holds whether the
  \<^verbatim>\<open>append\<close> returns or throws. When the \<^verbatim>\<open>append\<close> call returns, the result is the
  JSON response \<^verbatim>\<open>{ answer }\<close>, and the \<^verbatim>\<open>append\<close> is the only call that changes a
  Memory Record (the actor being the one modelled from the specification): the record of
  \<open>userId\<close> has the item at the end of its history and every other record is as
  before. When the \<^verbatim>\<open>append\<close> call throws, the handler throws that error and returns
  no answer.
\<close>

theorem chat_appends_turn_once:
  assumes got: "MEMORY_DO_fetch e userId ''https://do/get'' (OpGet userId) = Inr r"
    and parsed: "json r = Inr m"
    and answered: "llmChat e (chat_prompt (JSON_stringify e) m userMsg) = Inr answer"
  shows "snd (chat e userId userMsg) =
           [DoFetch userId ''https://do/get'' (OpGet userId),
            LlmChat (chat_prompt (JSON_stringify e) m userMsg),
            DoFetch userId ''https://do/append''
              (OpAppend userId (''User: '' @ userMsg @ nl @ ''Assistant: '' @ answer))]
       \<and> filter is_append (snd (chat e userId userMsg)) =
           [DoFetch userId ''https://do/append''
              (OpAppend userId (''User: '' @ userMsg @ nl @ ''Assistant: '' @ answer))]
       \<and> (\<forall>ack. MEMORY_DO_fetch e userId ''https://do/append''
                  (OpAppend userId (''User: '' @ userMsg @ nl @ ''Assistant: '' @ answer)) = Inr ack
              \<longrightarrow> fst (chat e userId userMsg) =
                    Inr \<lparr>status = 200, body = Json (JObj [(''answer'', JStr answer)])\<rparr>
                \<and> store_after (snd (chat e userId userMsg)) st =
                    st(userId := (st userId)\<lparr>history := history (st userId) @
                         [''User: '' @ userMsg @ nl @ ''Assistant: '' @ answer]\<rparr>))
       \<and> (\<forall>err. MEMORY_DO_fetch e userId ''https://do/append''
                  (OpAppend userId (''User: '' @ userMsg @ nl @ ''Assistant: '' @ answer)) = Inl err
              \<longrightarrow> fst (chat e userId userMsg) = Inl err)"
proof -
  let ?item = "''User: '' @ userMsg @ nl @ ''Assistant: '' @ answer"
  let ?p = "chat_prompt (JSON_stringify e) m userMsg"
  have trace: "snd (chat e userId userMsg) = [get_call userId, LlmChat ?p, append_call userId ?item]"
    using got parsed answered
    by (simp add: chat_def chat_item_def Let_def split: sum.split)
  have result: "fst (chat e userId userMsg) = Inr (json_response (JObj [(''answer'', JStr answer)]))"
    if "MEMORY_DO_fetch e userId ''https://do/append'' (OpAppend userId ?item) = Inr ack" for ack
    using got parsed answered that
    by (simp add: chat_def chat_item_def Let_def)
  have thrown: "fst (chat e userId userMsg) = Inl err"
    if "MEMORY_DO_fetch e userId ''https://do/append'' (OpAppend userId ?item) = Inl err" for err
    using got parsed answered that
    by (simp add: chat_def chat_item_def Let_def)
  show ?thesis
    using result thrown
    by (simp add: trace filter_is_append_chat store_after_chat actor_append_def
        json_response_def)
      (simp add: get_call_def append_call_def)
qed

theorem chat_appends_turn_once_witness:
  "snd (chat (scenario (replied empty_mem) (Inr ''hi'') (replied empty_mem)) ''u1'' ''hello'') =
     [DoFetch ''u1'' ''https://do/get'' (OpGet ''u1''),
      LlmChat (''Conversation so far:'' @ nl @ nl @ ''User: hello'' @ nl @ ''Assistant:''),
      DoFetch ''u1'' ''https://do/append'' (OpAppend ''u1'' (''User: hello'' @ nl @ ''Assistant: hi''))]
   \<and> fst (chat (scenario (replied empty_mem) (Inr ''hi'') (replied empty_mem)) ''u1'' ''hello'') =
       Inr \<lparr>status = 200, body = Json (JObj [(''answer'', JStr ''hi'')])\<rparr>
   \<and> history (store_after
        (snd (chat (scenario (replied empty_mem) (Inr ''hi'') (replied empty_mem)) ''u1'' ''hello''))
        fresh_store ''u1'') = [''User: hello'' @ nl @ ''Assistant: hi'']
   \<and> fst (chat (scenario (replied empty_mem) (Inr ''hi'') (Inl StorageUnavailable)) ''u1''
        ''hello'') = Inl StorageUnavailable"
proof -
  let ?e = "scenario (replied empty_mem) (Inr ''hi'') (replied empty_mem)"
  let ?f = "scenario (replied empty_mem) (Inr ''hi'') (Inl StorageUnavailable)"
  have got: "MEMORY_DO_fetch ?e ''u1'' ''https://do/get'' (OpGet ''u1'') =
      Inr \<lparr>do_status = 200, json = Inr empty_mem\<rparr>"
    by (simp add: scenario_def replied_def)
  have parsed: "json \<lparr>do_status = 200, json = Inr empty_mem\<rparr> = Inr empty_mem"
    by simp
  have answered: "llmChat ?e (chat_prompt (JSON_stringify ?e) empty_mem ''hello'') = Inr ''hi''"
    by (simp add: scenario_def)
  have acked: "MEMORY_DO_fetch ?e ''u1'' ''https://do/append''
      (OpAppend ''u1'' (''User: '' @ ''hello'' @ nl @ ''Assistant: '' @ ''hi'')) =
      Inr \<lparr>do_status = 200, json = Inr empty_mem\<rparr>"
    by (simp add: scenario_def replied_def)
  have prompt: "chat_prompt (JSON_stringify ?e) empty_mem ''hello'' =
      ''Conversation so far:'' @ nl @ nl @ ''User: hello'' @ nl @ ''Assistant:''"
    by (simp add: chat_prompt_def chat_profile_def chat_history_def empty_mem_def)
  note main = chat_appends_turn_once [OF got parsed answered, of fresh_store]
  have trace: "snd (chat ?e ''u1'' ''hello'') =
     [DoFetch ''u1'' ''https://do/get'' (OpGet ''u1''),
      LlmChat (''Conversation so far:'' @ nl @ nl @ ''User: hello'' @ nl @ ''Assistant:''),
      DoFetch ''u1'' ''https://do/append'' (OpAppend ''u1'' (''User: hello'' @ nl @ ''Assistant: hi''))]"
    using main by (simp add: prompt)
  have result: "fst (chat ?e ''u1'' ''hello'') =
      Inr \<lparr>status = 200, body = Json (JObj [(''answer'', JStr ''hi'')])\<rparr>"
    using main acked by blast
  have "store_after (snd (chat ?e ''u1'' ''hello'')) fresh_store =
      fresh_store(''u1'' := (fresh_store ''u1'')\<lparr>history := history (fresh_store ''u1'') @
        [''User: '' @ ''hello'' @ nl @ ''Assistant: '' @ ''hi'']\<rparr>)"
    using main acked by blast
  then have stored: "history (store_after (snd (chat ?e ''u1'' ''hello'')) fresh_store ''u1'') =
      [''User: hello'' @ nl @ ''Assistant: hi'']"
    by (simp add: fresh_store_def)
  have got_f: "MEMORY_DO_fetch ?f ''u1'' ''https://do/get'' (OpGet ''u1'') =
      Inr \<lparr>do_status = 200, json = Inr empty_mem\<rparr>"
    by (simp add: scenario_def replied_def)
  have answered_f: "llmChat ?f (chat_prompt (JSON_stringify ?f) empty_mem ''hello'') = Inr ''hi''"
    by (simp add: scenario_def)
  have refused: "MEMORY_DO_fetch ?f ''u1'' ''https://do/append''
      (OpAppend ''u1'' (''User: '' @ ''hello'' @ nl @ ''Assistant: '' @ ''hi'')) =
      Inl StorageUnavailable"
    by (simp add: scenario_def)
  have lost: "fst (chat ?f ''u1'' ''hello'') = Inl StorageUnavailable"
    using chat_appends_turn_once [OF got_f parsed answered_f, of fresh_store] refused by blast
  show ?thesis
    using trace result stored lost by blast
qed

section \<open>A failing inference call\<close>

text \<open>
  C4. When the \<^verbatim>\<open>get\<close> has returned a snapshot and the inference call throws, the
  error leaves the handler, so the client receives status 500. By then the handler has
  issued the \<^verbatim>\<open>get\<close> and the inference call and nothing else: no \<^verbatim>\<open>append\<close> is
  in the trace, and the Memory Records after the trace are the records before it.
\<close>

theorem chat_inference_error_no_append:
  assumes got: "MEMORY_DO_fetch e userId ''https://do/get'' (OpGet userId) = Inr r"
    and parsed: "json r = Inr m"
    and failed: "llmChat e (chat_prompt (JSON_stringify e) m userMsg) = Inl err"
  shows "fst (chat e userId userMsg) = Inl err
       \<and> status (respond (fst (chat e userId userMsg))) = 500
       \<and> snd (chat e userId userMsg) =
           [DoFetch userId ''https://do/get'' (OpGet userId),
            LlmChat (chat_prompt (JSON_stringify e) m userMsg)]
       \<and> filter is_append (snd (chat e userId userMsg)) = []
       \<and> store_after (snd (chat e userId userMsg)) st = st"
proof -
  have run: "chat e userId userMsg =
      (Inl err, [get_call userId, LlmChat (chat_prompt (JSON_stringify e) m userMsg)])"
    using got parsed failed by (simp add: chat_def Let_def)
  have "status (respond (Inl err)) = 500"
    by (simp add: respond_def onError_def text_response_def)
  moreover have "filter is_append [get_call userId, LlmChat p] = []" for p
    by (simp add: get_call_def)
  ultimately show ?thesis
    by (simp add: run store_after_no_append) (simp add: get_call_def)
qed

theorem chat_inference_error_no_append_witness:
  "fst (chat (scenario (replied empty_mem) (Inl InferenceError) (replied empty_mem)) ''u1'' ''hello'') =
     Inl InferenceError
   \<and> status (respond (fst (chat (scenario (replied empty_mem) (Inl InferenceError)
        (replied empty_mem)) ''u1'' ''hello''))) = 500
   \<and> filter is_append (snd (chat (scenario (replied empty_mem) (Inl InferenceError)
        (replied empty_mem)) ''u1'' ''hello'')) = []
   \<and> store_after (snd (chat (scenario (replied empty_mem) (Inl InferenceError)
        (replied empty_mem)) ''u1'' ''hello'')) fresh_store = fresh_store"
proof -
  let ?e = "scenario (replied empty_mem) (Inl InferenceError) (replied empty_mem)"
  have got: "MEMORY_DO_fetch ?e ''u1'' ''https://do/get'' (OpGet ''u1'') =
      Inr \<lparr>do_status = 200, json = Inr empty_mem\<rparr>"
    by (simp add: scenario_def replied_def)
  have parsed: "json \<lparr>do_status = 200, json = Inr empty_mem\<rparr> = Inr empty_mem"
    by simp
  have failed: "llmChat ?e (chat_prompt (JSON_stringify ?e) empty_mem ''hello'') = Inl InferenceError"
    by (simp add: scenario_def)
  show ?thesis
    using chat_inference_error_no_append [OF got parsed failed, of fresh_store] by blast
qed

section \<open>A failing append\<close>

text \<open>
  The claim C5 says that the answer is still returned when the \<^verbatim>\<open>append\<close> fails.
  The handler awaits the \<^verbatim>\<open>append\<close> fetch outside any \<^verbatim>\<open>try\<close>: when the fetch
  throws, the error leaves the handler and the client receives status 500, not the
  answer.
\<close>

theorem chat_append_throws_counterexample:
  "fst (chat (scenario (replied empty_mem) (Inr ''hi'') (Inl StorageUnavailable)) ''u1'' ''hello'') =
     Inl StorageUnavailable
   \<and> respond (fst (chat (scenario (replied empty_mem) (Inr ''hi'') (Inl StorageUnavailable))
        ''u1'' ''hello'')) = \<lparr>status = 500, body = Text ''Internal Server Error''\<rparr>"
  by (simp add: chat_def Let_def scenario_def replied_def respond_def onError_def
      text_response_def)

text \<open>
  C5, amended. When the \<^verbatim>\<open>get\<close> has returned a snapshot and inference has returned
  \<open>answer\<close>, the \<^verbatim>\<open>append\<close> is attempted before the handler responds. If the
  \<^verbatim>\<open>append\<close> fetch throws, the handler throws that error and the client receives
  status 500 instead of the answer. If the fetch returns a response, whatever its status
  and body, the handler returns \<^verbatim>\<open>{ answer }\<close> with status 200, and neither the
  result nor the trace says anything about how the \<^verbatim>\<open>append\<close> went.
\<close>

theorem chat_append_outcome:
  assumes got: "MEMORY_DO_fetch e userId ''https://do/get'' (OpGet userId) = Inr r"
    and parsed: "json r = Inr m"
    and answered: "llmChat e (chat_prompt (JSON_stringify e) m userMsg) = Inr answer"
  shows "(\<forall>err. MEMORY_DO_fetch e userId ''https://do/append''
                  (OpAppend userId (''User: '' @ userMsg @ nl @ ''Assistant: '' @ answer)) = Inl err
              \<longrightarrow> fst (chat e userId userMsg) = Inl err
                \<and> status (respond (fst (chat e userId userMsg))) = 500)
       \<and> (\<forall>ack. MEMORY_DO_fetch e userId ''https://do/append''
                  (OpAppend userId (''User: '' @ userMsg @ nl @ ''Assistant: '' @ answer)) = Inr ack
              \<longrightarrow> chat e userId userMsg =
                    (Inr \<lparr>status = 200, body = Json (JObj [(''answer'', JStr answer)])\<rparr>,
                     [DoFetch userId ''https://do/get'' (OpGet userId),
                      LlmChat (chat_prompt (JSON_stringify e) m userMsg),
                      DoFetch userId ''https://do/append''
                        (OpAppend userId (''User: '' @ userMsg @ nl @ ''Assistant: '' @ answer))]))"
  using got parsed answered
  by (simp add: chat_def Let_def chat_item_def respond_def onError_def text_response_def
      json_response_def get_call_def append_call_def)

theorem chat_append_outcome_witness:
  "fst (chat (scenario (replied empty_mem) (Inr ''hi'') (Inl StorageUnavailable)) ''u2'' ''hey'') =
     Inl StorageUnavailable
   \<and> status (respond (fst (chat (scenario (replied empty_mem) (Inr ''hi'') (Inl StorageUnavailable))
        ''u2'' ''hey''))) = 500
   \<and> fst (chat (scenario (replied empty_mem) (Inr ''hi'')
        (Inr \<lparr>do_status = 500, json = Inl StorageUnavailable\<rparr>)) ''u2'' ''hey'') =
       Inr \<lparr>status = 200, body = Json (JObj [(''answer'', JStr ''hi'')])\<rparr>"
proof -
  let ?e = "scenario (replied empty_mem) (Inr ''hi'') (Inl StorageUnavailable)"
  let ?f = "scenario (replied empty_mem) (Inr ''hi'')
      (Inr \<lparr>do_status = 500, json = Inl StorageUnavailable\<rparr>)"
  have parsed: "json \<lparr>do_status = 200, json = Inr empty_mem\<rparr> = Inr empty_mem"
    by simp
  have got_e: "MEMORY_DO_fetch ?e ''u2'' ''https://do/get'' (OpGet ''u2'') =
      Inr \<lparr>do_status = 200, json = Inr empty_mem\<rparr>"
    by (simp add: scenario_def replied_def)
  have answered_e: "llmChat ?e (chat_prompt (JSON_stringify ?e) empty_mem ''hey'') = Inr ''hi''"
    by (simp add: scenario_def)
  have thrown: "MEMORY_DO_fetch ?e ''u2'' ''https://do/append''
      (OpAppend ''u2'' (''User: '' @ ''hey'' @ nl @ ''Assistant: '' @ ''hi'')) = Inl StorageUnavailable"
    by (simp add: scenario_def)
  have got_f: "MEMORY_DO_fetch ?f ''u2'' ''https://do/get'' (OpGet ''u2'') =
      Inr \<lparr>do_status = 200, json = Inr empty_mem\<rparr>"
    by (simp add: scenario_def replied_def)
  have answered_f: "llmChat ?f (chat_prompt (JSON_stringify ?f) empty_mem ''hey'') = Inr ''hi''"
    by (simp add: scenario_def)
  have refused: "MEMORY_DO_fetch ?f ''u2'' ''https://do/append''
      (OpAppend ''u2'' (''User: '' @ ''hey'' @ nl @ ''Assistant: '' @ ''hi'')) =
      Inr \<lparr>do_status = 500, json = Inl StorageUnavailable\<rparr>"
    by (simp add: scenario_def)
  have "fst (chat ?e ''u2'' ''hey'') = Inl StorageUnavailable
      \<and> status (respond (fst (chat ?e ''u2'' ''hey''))) = 500"
    using chat_append_outcome [OF got_e parsed answered_e] thrown by blast
  moreover have "fst (chat ?f ''u2'' ''hey'') =
      Inr \<lparr>status = 200, body = Json (JObj [(''answer'', JStr ''hi'')])\<rparr>"
    using chat_append_outcome [OF got_f parsed answered_f] refused by simp
  ultimately show ?thesis
    by blast
qed

section \<open>A failing get\<close>

text \<open>
  The claim C6 says that a failing \<^verbatim>\<open>get\<close> degrades to an empty snapshot. The handler
  awaits the \<^verbatim>\<open>get\<close> fetch outside any \<^verbatim>\<open>try\<close>: when the fetch throws, the error
  leaves the handler after that one call, and no prompt is built.
\<close>

theorem chat_get_throws_counterexample:
  "chat (scenario (Inl StorageUnavailable) (Inr ''hi'') (replied empty_mem)) ''u1'' ''hello'' =
     (Inl StorageUnavailable, [DoFetch ''u1'' ''https://do/get'' (OpGet ''u1'')])"
  by (simp add: chat_def scenario_def get_call_def)

lemma chat_reads_no_status: "chat (with_status code e) userId userMsg = chat e userId userMsg"
  by (simp add: chat_def with_status_def Let_def split: sum.split)

lemma chat_bare_snapshot:
  assumes "MEMORY_DO_fetch e userId ''https://do/get'' (OpGet userId) = Inr r"
    and "json r = Inr m" and "hist m = None" and "prof m = None"
  shows "chat e userId userMsg = chat (with_get (replied empty_mem) e) userId userMsg"
proof -
  have "chat_prompt S m userMsg = chat_prompt S empty_mem userMsg" for S
    using assms(3,4) by (simp add: chat_prompt_def chat_profile_def chat_history_def empty_mem_def)
  then show ?thesis
    using assms(1,2) by (simp add: chat_def with_get_def replied_def Let_def split: sum.split)
qed

text \<open>
  C6, amended. If the \<^verbatim>\<open>get\<close> fetch throws, or returns a response whose body is not
  JSON, the request does not degrade to an empty snapshot: the handler throws that error
  with the \<^verbatim>\<open>get\<close> as its only call (no inference, no \<^verbatim>\<open>append\<close>), and the
  client receives status 500. If the fetch returns a response whose body parses, the
  handler uses the snapshot of the body and never reads the status: result and calls
  are the same as with any other status, so a failure that the actor reports in its
  response is not reported further. In particular, a response whose body has neither
  \<^verbatim>\<open>hist\<close> nor \<^verbatim>\<open>prof\<close> is handled as the empty snapshot of a fresh user: the prompt
  is \<^verbatim>\<open>Conversation so far:\n\nUser: <userMsg>\nAssistant:\<close>, and result and calls
  are those of the same request after a \<^verbatim>\<open>get\<close> that replied with an empty history
  and no profile.
\<close>

theorem chat_get_failure:
  "(MEMORY_DO_fetch e userId ''https://do/get'' (OpGet userId) = Inl err
      \<longrightarrow> chat e userId userMsg = (Inl err, [DoFetch userId ''https://do/get'' (OpGet userId)])
        \<and> status (respond (fst (chat e userId userMsg))) = 500)
   \<and> (MEMORY_DO_fetch e userId ''https://do/get'' (OpGet userId) = Inr r \<and> json r = Inl err
      \<longrightarrow> chat e userId userMsg = (Inl err, [DoFetch userId ''https://do/get'' (OpGet userId)])
        \<and> status (respond (fst (chat e userId userMsg))) = 500)
   \<and> chat (with_status code e) userId userMsg = chat e userId userMsg
   \<and> (MEMORY_DO_fetch e userId ''https://do/get'' (OpGet userId) = Inr r
        \<and> json r = Inr \<lparr>prof = None, hist = None\<rparr>
      \<longrightarrow> take 2 (snd (chat e userId userMsg)) =
            [DoFetch userId ''https://do/get'' (OpGet userId),
             LlmChat (''Conversation so far:'' @ nl @ nl @ ''User: '' @ userMsg @ nl @ ''Assistant:'')]
        \<and> chat e userId userMsg = chat (with_get (replied empty_mem) e) userId userMsg)"
proof (intro conjI impI)
  assume "MEMORY_DO_fetch e userId ''https://do/get'' (OpGet userId) = Inl err"
  then have run: "chat e userId userMsg = (Inl err, [get_call userId])"
    by (simp add: chat_def)
  show "chat e userId userMsg = (Inl err, [DoFetch userId ''https://do/get'' (OpGet userId)])"
    by (simp add: run get_call_def)
  show "status (respond (fst (chat e userId userMsg))) = 500"
    by (simp add: run respond_def onError_def text_response_def)
next
  assume "MEMORY_DO_fetch e userId ''https://do/get'' (OpGet userId) = Inr r \<and> json r = Inl err"
  then have run: "chat e userId userMsg = (Inl err, [get_call userId])"
    by (simp add: chat_def)
  show "chat e userId userMsg = (Inl err, [DoFetch userId ''https://do/get'' (OpGet userId)])"
    by (simp add: run get_call_def)
  show "status (respond (fst (chat e userId userMsg))) = 500"
    by (simp add: run respond_def onError_def text_response_def)
next
  show "chat (with_status code e) userId userMsg = chat e userId userMsg"
    by (rule chat_reads_no_status)
next
  assume bare: "MEMORY_DO_fetch e userId ''https://do/get'' (OpGet userId) = Inr r
      \<and> json r = Inr \<lparr>prof = None, hist = None\<rparr>"
  then show "take 2 (snd (chat e userId userMsg)) =
      [DoFetch userId ''https://do/get'' (OpGet userId),
       LlmChat (''Conversation so far:'' @ nl @ nl @ ''User: '' @ userMsg @ nl @ ''Assistant:'')]"
    by (simp add: chat_def Let_def chat_prompt_def chat_profile_def chat_history_def
        get_call_def split: sum.split)
  show "chat e userId userMsg = chat (with_get (replied empty_mem) e) userId userMsg"
    using bare chat_bare_snapshot [of e userId r "\<lparr>prof = None, hist = None\<rparr>" userMsg]
    by simp
qed

theorem chat_get_failure_witness:
  "chat (scenario (Inl StorageUnavailable) (Inr ''hi'') (replied empty_mem)) ''u3'' ''hello'' =
     (Inl StorageUnavailable, [DoFetch ''u3'' ''https://do/get'' (OpGet ''u3'')])
   \<and> chat (scenario (Inr \<lparr>do_status = 500, json = Inl StorageUnavailable\<rparr>) (Inr ''hi'')
        (replied empty_mem)) ''u3'' ''hello'' =
       (Inl StorageUnavailable, [DoFetch ''u3'' ''https://do/get'' (OpGet ''u3'')])
   \<and> take 2 (snd (chat (scenario (Inr \<lparr>do_status = 500, json = Inr \<lparr>prof = None, hist = None\<rparr>\<rparr>)
        (Inr ''hi'') (replied empty_mem)) ''u3'' ''hello'')) =
       [DoFetch ''u3'' ''https://do/get'' (OpGet ''u3''),
        LlmChat (''Conversation so far:'' @ nl @ nl @ ''User: '' @ ''hello'' @ nl @ ''Assistant:'')]
   \<and> chat (scenario (Inr \<lparr>do_status = 500, json = Inr \<lparr>prof = None, hist = None\<rparr>\<rparr>)
        (Inr ''hi'') (replied empty_mem)) ''u3'' ''hello'' =
       chat (with_get (replied empty_mem) (scenario
         (Inr \<lparr>do_status = 500, json = Inr \<lparr>prof = None, hist = None\<rparr>\<rparr>)
         (Inr ''hi'') (replied empty_mem))) ''u3'' ''hello''
   \<and> chat (with_status 500 plain) ''u3'' ''hello'' = chat plain ''u3'' ''hello''"
proof -
  let ?e = "scenario (Inl StorageUnavailable) (Inr ''hi'') (replied empty_mem)"
  let ?f = "scenario (Inr \<lparr>do_status = 500, json = Inl StorageUnavailable\<rparr>) (Inr ''hi'')
      (replied empty_mem)"
  let ?g = "scenario (Inr \<lparr>do_status = 500, json = Inr \<lparr>prof = None, hist = None\<rparr>\<rparr>)
      (Inr ''hi'') (replied empty_mem)"
  have thrown: "MEMORY_DO_fetch ?e ''u3'' ''https://do/get'' (OpGet ''u3'') = Inl StorageUnavailable"
    by (simp add: scenario_def)
  have garbled: "MEMORY_DO_fetch ?f ''u3'' ''https://do/get'' (OpGet ''u3'') =
      Inr \<lparr>do_status = 500, json = Inl StorageUnavailable\<rparr>
      \<and> json \<lparr>do_status = 500, json = Inl StorageUnavailable\<rparr> = Inl StorageUnavailable"
    by (simp add: scenario_def)
  have bare: "MEMORY_DO_fetch ?g ''u3'' ''https://do/get'' (OpGet ''u3'') =
      Inr \<lparr>do_status = 500, json = Inr \<lparr>prof = None, hist = None\<rparr>\<rparr>
      \<and> json \<lparr>do_status = 500, json = Inr \<lparr>prof = None, hist = None\<rparr>\<rparr> =
        Inr \<lparr>prof = None, hist = None\<rparr>"
    by (simp add: scenario_def)
  have "chat ?e ''u3'' ''hello'' =
      (Inl StorageUnavailable, [DoFetch ''u3'' ''https://do/get'' (OpGet ''u3'')])"
    using chat_get_failure [of ?e "''u3''" StorageUnavailable "''hello''"] thrown by blast
  moreover have "chat ?f ''u3'' ''hello'' =
      (Inl StorageUnavailable, [DoFetch ''u3'' ''https://do/get'' (OpGet ''u3'')])"
    using chat_get_failure [of ?f "''u3''" StorageUnavailable "''hello''"
        "\<lparr>do_status = 500, json = Inl StorageUnavailable\<rparr>"] garbled by blast
  moreover have "take 2 (snd (chat ?g ''u3'' ''hello'')) =
      [DoFetch ''u3'' ''https://do/get'' (OpGet ''u3''),
       LlmChat (''Conversation so far:'' @ nl @ nl @ ''User: '' @ ''hello'' @ nl @ ''Assistant:'')]
    \<and> chat ?g ''u3'' ''hello'' = chat (with_get (replied empty_mem) ?g) ''u3'' ''hello''"
    using chat_get_failure [of ?g "''u3''" _ "''hello''"
        "\<lparr>do_status = 500, json = Inr \<lparr>prof = None, hist = None\<rparr>\<rparr>"] bare by blast
  moreover have "chat (with_status 500 plain) ''u3'' ''hello'' = chat plain ''u3'' ''hello''"
    using chat_get_failure [of plain "''u3''" _ "''hello''" _ 500] by blast
  ultimately show ?thesis
    by blast
qed

section \<open>POST /summarize and the url\<close>

text \<open>
  The claim C8 says that an empty or absent \<^verbatim>\<open>url\<close> is rejected before a workflow
  instance is created. The handler passes \<^verbatim>\<open>url\<close> to \<^verbatim>\<open>create\<close> without looking
  at it: with the body \<^verbatim>\<open>{"url": ""}\<close>, and with the body \<^verbatim>\<open>{}\<close>, the instance is
  created and the request succeeds.
\<close>

theorem summarize_empty_url_counterexample:
  "summarize plain (Inr (JObj [(''url'', JStr [])])) =
     (Inr \<lparr>status = 200,
           body = Json (JObj [(''id'', JStr ''wf-1''), (''status'', JStr ''Queued'')])\<rparr>,
      [FlowCreate (Some (JStr [])), InstanceStatus ''wf-1''])
   \<and> summarize plain (Inr (JObj [])) =
     (Inr \<lparr>status = 200,
           body = Json (JObj [(''id'', JStr ''wf-1''), (''status'', JStr ''Queued'')])\<rparr>,
      [FlowCreate None, InstanceStatus ''wf-1''])"
  by (simp add: summarize_def plain_def scenario_def wf1_def json_response_def)

lemma read_prop_throws: "read_prop v k = Inl err \<longleftrightarrow> v = JNull \<and> err = TypeError"
  by (cases v) auto

text \<open>
  C8, amended. The handler never looks at \<^verbatim>\<open>url\<close>. A request is turned away before
  a workflow instance is created only at line 90, when the body is not JSON or is
  \<^verbatim>\<open>null\<close>: the error leaves the handler, no call has been issued, and the client
  receives status 500. For every other body the first call of the handler is the
  creation of a workflow instance with the \<^verbatim>\<open>url\<close> of the body, whatever it is: the
  empty string, any other value, or none. When the engine creates the instance and
  reports its status, the handler returns \<^verbatim>\<open>{ id, status }\<close> with status 200. After
  line 90 the handler throws only an error that \<^verbatim>\<open>create\<close> or \<^verbatim>\<open>status\<close> of the
  Workflow Engine has thrown.
\<close>

theorem summarize_defers_all_validation:
  "summarize e (Inl err) = (Inl err, [])
   \<and> summarize e (Inr JNull) = (Inl TypeError, [])
   \<and> status (respond (fst (summarize e (Inl err)))) = 500
   \<and> status (respond (fst (summarize e (Inr JNull)))) = 500
   \<and> ((snd (summarize e parsed_body) = []) =
        ((\<exists>x. parsed_body = Inl x) \<or> parsed_body = Inr JNull))
   \<and> take 1 (snd (summarize e (Inr (JObj [(''url'', u)])))) = [FlowCreate (Some u)]
   \<and> take 1 (snd (summarize e (Inr (JObj [])))) = [FlowCreate None]
   \<and> (parsed_body = Inr v \<and> read_prop v ''url'' = Inr url
        \<longrightarrow> take 1 (snd (summarize e parsed_body)) = [FlowCreate url])
   \<and> (parsed_body = Inr v \<and> read_prop v ''url'' = Inr url
        \<and> SUMMARIZE_FLOW_create e url = Inr inst \<and> instance_status inst = Inr st
        \<longrightarrow> summarize e parsed_body =
              (Inr \<lparr>status = 200,
                    body = Json (JObj [(''id'', JStr (instance_id inst)), (''status'', st)])\<rparr>,
               [FlowCreate url, InstanceStatus (instance_id inst)]))
   \<and> (fst (summarize e parsed_body) = Inl err
        \<longrightarrow> parsed_body = Inl err
          \<or> (parsed_body = Inr JNull \<and> err = TypeError)
          \<or> (\<exists>w url. parsed_body = Inr w \<and> read_prop w ''url'' = Inr url
                \<and> (SUMMARIZE_FLOW_create e url = Inl err
                  \<or> (\<exists>i. SUMMARIZE_FLOW_create e url = Inr i \<and> instance_status i = Inl err))))"
proof -
  have unparsed: "summarize e (Inl err) = (Inl err, [])"
    by (simp add: summarize_def)
  have nullbody: "summarize e (Inr JNull) = (Inl TypeError, [])"
    by (simp add: summarize_def)
  have codes: "status (respond (fst (summarize e (Inl err)))) = 500
      \<and> status (respond (fst (summarize e (Inr JNull)))) = 500"
    by (simp add: unparsed nullbody respond_def onError_def text_response_def)
  have silent: "(snd (summarize e parsed_body) = []) =
      ((\<exists>x. parsed_body = Inl x) \<or> parsed_body = Inr JNull)"
    by (auto simp add: summarize_def read_prop_throws split: sum.splits)
  have given: "take 1 (snd (summarize e (Inr (JObj [(''url'', u)])))) = [FlowCreate (Some u)]"
    by (simp add: summarize_def split: sum.split)
  have absent: "take 1 (snd (summarize e (Inr (JObj [])))) = [FlowCreate None]"
    by (simp add: summarize_def split: sum.split)
  have created: "take 1 (snd (summarize e parsed_body)) = [FlowCreate url]"
    if "parsed_body = Inr v \<and> read_prop v ''url'' = Inr url"
    using that by (simp add: summarize_def split: sum.split)
  have finished: "summarize e parsed_body =
      (Inr \<lparr>status = 200,
            body = Json (JObj [(''id'', JStr (instance_id inst)), (''status'', st)])\<rparr>,
       [FlowCreate url, InstanceStatus (instance_id inst)])"
    if "parsed_body = Inr v \<and> read_prop v ''url'' = Inr url
      \<and> SUMMARIZE_FLOW_create e url = Inr inst \<and> instance_status inst = Inr st"
    using that by (simp add: summarize_def json_response_def)
  have origin: "parsed_body = Inl err
      \<or> (parsed_body = Inr JNull \<and> err = TypeError)
      \<or> (\<exists>w url. parsed_body = Inr w \<and> read_prop w ''url'' = Inr url
            \<and> (SUMMARIZE_FLOW_create e url = Inl err
              \<or> (\<exists>i. SUMMARIZE_FLOW_create e url = Inr i \<and> instance_status i = Inl err)))"
    if "fst (summarize e parsed_body) = Inl err"
    using that by (auto simp add: summarize_def read_prop_throws split: sum.splits)
  show ?thesis
    using unparsed nullbody codes silent given absent created finished origin by blast
qed

theorem summarize_defers_all_validation_witness:
  "take 1 (snd (summarize plain (Inr (JObj [(''url'', JStr [])])))) = [FlowCreate (Some (JStr []))]
   \<and> summarize plain (Inr (JObj [(''url'', JStr [])])) =
       (Inr \<lparr>status = 200,
             body = Json (JObj [(''id'', JStr ''wf-1''), (''status'', JStr ''Queued'')])\<rparr>,
        [FlowCreate (Some (JStr [])), InstanceStatus ''wf-1''])
   \<and> summarize plain (Inl SyntaxError) = (Inl SyntaxError, [])
   \<and> summarize plain (Inr JNull) = (Inl TypeError, [])
   \<and> fst (summarize (engine_down plain) (Inr (JObj [(''url'', JStr [])]))) = Inl WorkflowError
   \<and> SUMMARIZE_FLOW_create (engine_down plain) (Some (JStr [])) = Inl WorkflowError"
proof -
  let ?b = "Inr (JObj [(''url'', JStr [])]) :: error + jsval"
  have read: "?b = Inr (JObj [(''url'', JStr [])])
      \<and> read_prop (JObj [(''url'', JStr [])]) ''url'' = Inr (Some (JStr []))"
    by simp
  have created: "SUMMARIZE_FLOW_create plain (Some (JStr [])) = Inr wf1
      \<and> instance_status wf1 = Inr (JStr ''Queued'')"
    by (simp add: plain_def scenario_def wf1_def)
  have down: "fst (summarize (engine_down plain) ?b) = Inl WorkflowError"
    by (simp add: summarize_def engine_down_def)
  have create_down: "SUMMARIZE_FLOW_create (engine_down plain) (Some (JStr [])) = Inl WorkflowError"
    by (simp add: engine_down_def)
  have "take 1 (snd (summarize plain ?b)) = [FlowCreate (Some (JStr []))]"
    using summarize_defers_all_validation
      [of plain _ ?b _ "JObj [(''url'', JStr [])]" "Some (JStr [])"] read
    by blast
  moreover have "summarize plain ?b =
      (Inr \<lparr>status = 200,
            body = Json (JObj [(''id'', JStr ''wf-1''), (''status'', JStr ''Queued'')])\<rparr>,
       [FlowCreate (Some (JStr [])), InstanceStatus ''wf-1''])"
    using summarize_defers_all_validation
      [of plain _ ?b _ "JObj [(''url'', JStr [])]" "Some (JStr [])" wf1 "JStr ''Queued''"]
      read created
    by (simp add: wf1_def)
  moreover have "summarize plain (Inl SyntaxError) = (Inl SyntaxError, [])
      \<and> summarize plain (Inr JNull) = (Inl TypeError, [])"
    using summarize_defers_all_validation [of plain SyntaxError] by blast
  moreover have "parsed = Inl WorkflowError
      \<or> (parsed = Inr JNull \<and> WorkflowError = TypeError)
      \<or> (\<exists>w url. parsed = Inr w \<and> read_prop w ''url'' = Inr url
            \<and> (SUMMARIZE_FLOW_create (engine_down plain) url = Inl WorkflowError
              \<or> (\<exists>i. SUMMARIZE_FLOW_create (engine_down plain) url = Inr i
                    \<and> instance_status i = Inl WorkflowError)))"
    if "parsed = ?b" for parsed
    using summarize_defers_all_validation [of "engine_down plain" WorkflowError parsed] down that
    by blast
  ultimately show ?thesis
    using down create_down by blast
qed

section \<open>The profile line and truthiness\<close>

lemma falsy_cases:
  "\<not> truthy p \<longleftrightarrow>
     p = JNull \<or> p = JBool False \<or> p = JStr [] \<or> (\<exists>neg e. p = JNum neg 0 e)"
  by (cases p) auto

text \<open>
  C9. The profile line is gated on the truthiness of \<^verbatim>\<open>mem.prof\<close>, not on its
  presence. When the snapshot the \<^verbatim>\<open>get\<close> returned has a \<^verbatim>\<open>prof\<close> that is falsy
  (\<^verbatim>\<open>null\<close>, \<^verbatim>\<open>false\<close>, a zero or the empty string), the profile part of the prompt
  is empty, the prompt is the one of the same snapshot without \<^verbatim>\<open>prof\<close>, it begins
  with the header \<^verbatim>\<open>Conversation so far:\<close>, and this is the prompt the handler sends
  to inference.
\<close>

theorem chat_profile_needs_truthy_prof:
  assumes got: "MEMORY_DO_fetch e userId ''https://do/get'' (OpGet userId) = Inr r"
    and parsed: "json r = Inr m"
    and present: "prof m = Some p"
    and falsy: "\<not> truthy p"
  shows "chat_profile (JSON_stringify e) m = []
       \<and> chat_prompt (JSON_stringify e) m userMsg =
           chat_prompt (JSON_stringify e) (m\<lparr>prof := None\<rparr>) userMsg
       \<and> chat_prompt (JSON_stringify e) m userMsg =
           ''Conversation so far:'' @ nl @ chat_history m @ nl @ ''User: '' @ userMsg @ nl
             @ ''Assistant:''
       \<and> take 2 (snd (chat e userId userMsg)) =
           [DoFetch userId ''https://do/get'' (OpGet userId),
            LlmChat (chat_prompt (JSON_stringify e) (m\<lparr>prof := None\<rparr>) userMsg)]"
proof -
  have none: "chat_profile (JSON_stringify e) m = []"
    using present falsy by (simp add: chat_profile_def)
  have same: "chat_prompt (JSON_stringify e) m userMsg =
      chat_prompt (JSON_stringify e) (m\<lparr>prof := None\<rparr>) userMsg"
    using present falsy by (simp add: chat_prompt_def chat_profile_def chat_history_def)
  have form: "chat_prompt (JSON_stringify e) m userMsg =
      ''Conversation so far:'' @ nl @ chat_history m @ nl @ ''User: '' @ userMsg @ nl @ ''Assistant:''"
    by (simp add: chat_prompt_def none)
  have "take 2 (snd (chat e userId userMsg)) =
      [get_call userId, LlmChat (chat_prompt (JSON_stringify e) m userMsg)]"
    using got parsed by (simp add: chat_def Let_def split: sum.split)
  then have sent: "take 2 (snd (chat e userId userMsg)) =
      [DoFetch userId ''https://do/get'' (OpGet userId),
       LlmChat (chat_prompt (JSON_stringify e) (m\<lparr>prof := None\<rparr>) userMsg)]"
    by (simp add: same get_call_def)
  show ?thesis
    using none same form sent by blast
qed

theorem chat_profile_needs_truthy_prof_witness:
  "chat_profile (\<lambda>v. ''{}'') \<lparr>prof = Some (JStr []), hist = Some [''a'']\<rparr> = []
   \<and> take 2 (snd (chat (scenario (replied \<lparr>prof = Some (JStr []), hist = Some [''a'']\<rparr>)
        (Inr ''hi'') (replied empty_mem)) ''u1'' ''hello'')) =
       [DoFetch ''u1'' ''https://do/get'' (OpGet ''u1''),
        LlmChat (''Conversation so far:'' @ nl @ ''a'' @ nl @ ''User: hello'' @ nl @ ''Assistant:'')]"
proof -
  let ?m = "\<lparr>prof = Some (JStr []), hist = Some [''a'']\<rparr>"
  let ?e = "scenario (replied ?m) (Inr ''hi'') (replied empty_mem)"
  have got: "MEMORY_DO_fetch ?e ''u1'' ''https://do/get'' (OpGet ''u1'') =
      Inr \<lparr>do_status = 200, json = Inr ?m\<rparr>"
    by (simp add: scenario_def replied_def)
  have parsed: "json \<lparr>do_status = 200, json = Inr ?m\<rparr> = Inr ?m"
    by simp
  have present: "prof ?m = Some (JStr [])"
    by simp
  have falsy: "\<not> truthy (JStr [])"
    by simp
  have S: "JSON_stringify ?e = (\<lambda>v. ''{}'')"
    by (simp add: scenario_def)
  have prompt: "chat_prompt (JSON_stringify ?e) (?m\<lparr>prof := None\<rparr>) ''hello'' =
      ''Conversation so far:'' @ nl @ ''a'' @ nl @ ''User: hello'' @ nl @ ''Assistant:''"
    by (simp add: chat_prompt_def chat_profile_def chat_history_def)
  note main = chat_profile_needs_truthy_prof [OF got parsed present falsy, of "''hello''"]
  have "chat_profile (\<lambda>v. ''{}'') ?m = []"
    using main by (simp add: S)
  moreover have "take 2 (snd (chat ?e ''u1'' ''hello'')) =
      [DoFetch ''u1'' ''https://do/get'' (OpGet ''u1''),
       LlmChat (''Conversation so far:'' @ nl @ ''a'' @ nl @ ''User: hello'' @ nl @ ''Assistant:'')]"
    using main by (simp only: prompt)
  ultimately show ?thesis
    by blast
qed

section \<open>A snapshot without hist\<close>

text \<open>
  C10. When the snapshot the \<^verbatim>\<open>get\<close> returned has no \<^verbatim>\<open>hist\<close>, the handler takes
  the empty list for it: the prompt is the one of the same snapshot with an empty
  history, its history part is empty, and the handler goes on to call inference with
  this prompt instead of failing.
\<close>

theorem chat_hist_absent_is_empty:
  assumes got: "MEMORY_DO_fetch e userId ''https://do/get'' (OpGet userId) = Inr r"
    and parsed: "json r = Inr m"
    and absent: "hist m = None"
  shows "chat_history m = []
       \<and> chat_prompt (JSON_stringify e) m userMsg =
           chat_prompt (JSON_stringify e) (m\<lparr>hist := Some []\<rparr>) userMsg
       \<and> take 2 (snd (chat e userId userMsg)) =
           [DoFetch userId ''https://do/get'' (OpGet userId),
            LlmChat (chat_profile (JSON_stringify e) m @ ''Conversation so far:'' @ nl @ nl
              @ ''User: '' @ userMsg @ nl @ ''Assistant:'')]"
proof -
  have empty: "chat_history m = []"
    using absent by (simp add: chat_history_def)
  have same: "chat_prompt (JSON_stringify e) m userMsg =
      chat_prompt (JSON_stringify e) (m\<lparr>hist := Some []\<rparr>) userMsg"
    using absent by (simp add: chat_prompt_def chat_profile_def chat_history_def)
  have "take 2 (snd (chat e userId userMsg)) =
      [get_call userId, LlmChat (chat_prompt (JSON_stringify e) m userMsg)]"
    using got parsed by (simp add: chat_def Let_def split: sum.split)
  then have sent: "take 2 (snd (chat e userId userMsg)) =
      [DoFetch userId ''https://do/get'' (OpGet userId),
       LlmChat (chat_profile (JSON_stringify e) m @ ''Conversation so far:'' @ nl @ nl
         @ ''User: '' @ userMsg @ nl @ ''Assistant:'')]"
    by (simp add: chat_prompt_def empty get_call_def)
  show ?thesis
    using empty same sent by blast
qed

theorem chat_hist_absent_is_empty_witness:
  "chat (scenario (replied \<lparr>prof = None, hist = None\<rparr>) (Inr ''hi'') (replied empty_mem))
      ''u1'' ''hello'' =
     (Inr \<lparr>status = 200, body = Json (JObj [(''answer'', JStr ''hi'')])\<rparr>,
      [DoFetch ''u1'' ''https://do/get'' (OpGet ''u1''),
       LlmChat (''Conversation so far:'' @ nl @ nl @ ''User: hello'' @ nl @ ''Assistant:''),
       DoFetch ''u1'' ''https://do/append'' (OpAppend ''u1'' (''User: hello'' @ nl @ ''Assistant: hi''))])
   \<and> take 2 (snd (chat (scenario (replied \<lparr>prof = None, hist = None\<rparr>) (Inr ''hi'')
        (replied empty_mem)) ''u1'' ''hello'')) =
       [DoFetch ''u1'' ''https://do/get'' (OpGet ''u1''),
        LlmChat (''Conversation so far:'' @ nl @ nl @ ''User: hello'' @ nl @ ''Assistant:'')]"
proof -
  let ?m = "\<lparr>prof = None, hist = None\<rparr>"
  let ?e = "scenario (replied ?m) (Inr ''hi'') (replied empty_mem)"
  have got: "MEMORY_DO_fetch ?e ''u1'' ''https://do/get'' (OpGet ''u1'') =
      Inr \<lparr>do_status = 200, json = Inr ?m\<rparr>"
    by (simp add: scenario_def replied_def)
  have parsed: "json \<lparr>do_status = 200, json = Inr ?m\<rparr> = Inr ?m"
    by simp
  have absent: "hist ?m = None"
    by simp
  have run: "chat ?e ''u1'' ''hello'' =
     (Inr \<lparr>status = 200, body = Json (JObj [(''answer'', JStr ''hi'')])\<rparr>,
      [DoFetch ''u1'' ''https://do/get'' (OpGet ''u1''),
       LlmChat (''Conversation so far:'' @ nl @ nl @ ''User: hello'' @ nl @ ''Assistant:''),
       DoFetch ''u1'' ''https://do/append'' (OpAppend ''u1'' (''User: hello'' @ nl @ ''Assistant: hi''))])"
    by (simp add: chat_def Let_def scenario_def replied_def chat_prompt_def chat_profile_def
        chat_history_def chat_item_def json_response_def get_call_def append_call_def)
  have "take 2 (snd (chat ?e ''u1'' ''hello'')) =
      [DoFetch ''u1'' ''https://do/get'' (OpGet ''u1''),
       LlmChat (''Conversation so far:'' @ nl @ nl @ ''User: hello'' @ nl @ ''Assistant:'')]"
    using chat_hist_absent_is_empty [OF got parsed absent, of "''hello''"]
    by (simp add: chat_profile_def)
  then show ?thesis
    using run by blast
qed

section \<open>The prompt of /chat\<close>

lemma split_lines_nonempty: "split_lines s \<noteq> []"
  by (induction s) (auto split: list.split)

lemma split_lines_single: "CHR 0x0A \<notin> set x \<Longrightarrow> split_lines x = [x]"
  by (induction x) auto

lemma split_lines_break:
  "split_lines (x @ CHR 0x0A # rest) = split_lines x @ split_lines rest"
proof (induction x)
  case Nil
  show ?case by simp
next
  case (Cons c cs)
  obtain l ls where "split_lines cs = l # ls"
    using split_lines_nonempty [of cs] by (cases "split_lines cs") auto
  with Cons show ?case
    by simp
qed

lemma split_lines_join:
  "h \<noteq> [] \<Longrightarrow> split_lines (join nl h) = concat (map split_lines h)"
proof (induction h)
  case Nil
  then show ?case by simp
next
  case (Cons x xs)
  show ?case
  proof (cases xs)
    case Nil
    then show ?thesis by simp
  next
    case (Cons y ys)
    with Cons.IH show ?thesis
      by (simp add: nl_def split_lines_break)
  qed
qed

lemma split_lines_turns:
  "\<forall>t\<in>set h. CHR 0x0A \<notin> set t \<Longrightarrow> concat (map split_lines h) = h"
  by (induction h) (auto simp add: split_lines_single)

lemma chat_item_lines:
  "split_lines (chat_item userMsg answer) =
     split_lines (''User: '' @ userMsg) @ split_lines (''Assistant: '' @ answer)"
proof -
  have "chat_item userMsg answer = (''User: '' @ userMsg) @ CHR 0x0A # (''Assistant: '' @ answer)"
    by (simp add: chat_item_def nl_def)
  then show ?thesis
    by (simp only: split_lines_break)
qed

lemma chat_item_two_lines: "2 \<le> length (split_lines (chat_item userMsg answer))"
proof -
  have "1 \<le> length (split_lines s)" for s
    using split_lines_nonempty [of s] by (cases "split_lines s") auto
  from this [of "''User: '' @ userMsg"] this [of "''Assistant: '' @ answer"]
  show ?thesis
    by (simp only: chat_item_lines length_append)
qed

lemma chat_prompt_suffix:
  "suffix (''User: '' @ userMsg @ nl @ ''Assistant:'') (chat_prompt S m userMsg)"
proof -
  have "chat_prompt S m userMsg =
      (chat_profile S m @ ''Conversation so far:'' @ nl @ chat_history m @ nl)
        @ (''User: '' @ userMsg @ nl @ ''Assistant:'')"
    by (simp add: chat_prompt_def)
  then show ?thesis
    by (metis suffixI)
qed

text \<open>
  The claim C1 says that with an empty history the prompt has no profile line, and that
  the history is joined one turn per line. The profile line does not depend on the
  history: a snapshot with the profile \<^verbatim>\<open>{}\<close> and an empty history gives a prompt
  that begins with the profile line. And a turn takes the lines it has: the history of
  a second request, which holds the one turn the first request appended, is two lines
  of the prompt.
\<close>

theorem chat_prompt_profile_counterexample:
  "take 2 (snd (chat (scenario (replied \<lparr>prof = Some (JObj []), hist = Some []\<rparr>) (Inr ''hi'')
      (replied empty_mem)) ''u1'' ''hello'')) =
     [DoFetch ''u1'' ''https://do/get'' (OpGet ''u1''),
      LlmChat (''User profile: {}'' @ nl @ ''Conversation so far:'' @ nl @ nl
        @ ''User: hello'' @ nl @ ''Assistant:'')]
   \<and> take 2 (snd (chat (scenario (replied \<lparr>prof = None, hist = Some [chat_item ''hello'' ''hi'']\<rparr>)
      (Inr ''fine'') (replied empty_mem)) ''u1'' ''how are you'')) =
     [DoFetch ''u1'' ''https://do/get'' (OpGet ''u1''),
      LlmChat (''Conversation so far:'' @ nl @ ''User: hello'' @ nl @ ''Assistant: hi'' @ nl
        @ ''User: how are you'' @ nl @ ''Assistant:'')]
   \<and> split_lines (chat_history \<lparr>prof = None, hist = Some [chat_item ''hello'' ''hi'']\<rparr>) =
     [''User: hello'', ''Assistant: hi'']"
  by (simp add: chat_def Let_def scenario_def replied_def chat_prompt_def chat_profile_def
      chat_history_def chat_item_def get_call_def nl_def)

text \<open>
  C1, amended. When the \<^verbatim>\<open>get\<close> has returned a snapshot, the prompt the handler
  sends to inference is: the profile line \<^verbatim>\<open>User profile: <JSON of prof>\<close>, rendered
  only if the snapshot has a \<^verbatim>\<open>prof\<close>, and then exactly when it is truthy; the header
  line \<^verbatim>\<open>Conversation so far:\<close>; the stored history, joined with a line feed between
  consecutive turns in stored order, so that its lines are the lines of the first turn,
  then those of the second, and so on (one line per turn for the turns that contain no
  line feed, two lines or more for a turn that \<^verbatim>\<open>/chat\<close> has appended); a line feed;
  and \<^verbatim>\<open>User: <userMsg>\nAssistant:\<close>, which is the end of every prompt. When the
  history is empty the prompt has no history lines: after the profile part it is the
  header, an empty line and the trailing content. When moreover the profile is absent or
  falsy, the prompt has no profile line either: it is exactly
  \<^verbatim>\<open>Conversation so far:\n\nUser: <userMsg>\nAssistant:\<close>.
\<close>

theorem chat_prompt_structure:
  assumes got: "MEMORY_DO_fetch e userId ''https://do/get'' (OpGet userId) = Inr r"
    and parsed: "json r = Inr m"
    and turns: "h = (case hist m of None \<Rightarrow> [] | Some ts \<Rightarrow> ts)"
  shows "take 2 (snd (chat e userId userMsg)) =
           [DoFetch userId ''https://do/get'' (OpGet userId),
            LlmChat (chat_profile (JSON_stringify e) m @ ''Conversation so far:'' @ nl
              @ join nl h @ nl @ ''User: '' @ userMsg @ nl @ ''Assistant:'')]
       \<and> (chat_profile (JSON_stringify e) m = []
           \<or> (\<exists>p. prof m = Some p \<and> truthy p
                \<and> chat_profile (JSON_stringify e) m = ''User profile: '' @ JSON_stringify e p @ nl))
       \<and> (\<forall>p. prof m = Some p \<and> truthy p \<longrightarrow>
             chat_profile (JSON_stringify e) m = ''User profile: '' @ JSON_stringify e p @ nl)
       \<and> (h \<noteq> [] \<longrightarrow> split_lines (join nl h) = concat (map split_lines h))
       \<and> ((\<forall>t\<in>set h. CHR 0x0A \<notin> set t) \<and> h \<noteq> [] \<longrightarrow> split_lines (join nl h) = h)
       \<and> 2 \<le> length (split_lines (chat_item userMsg answer))
       \<and> suffix (''User: '' @ userMsg @ nl @ ''Assistant:'')
           (chat_prompt (JSON_stringify e) m userMsg)
       \<and> (h = [] \<longrightarrow>
            chat_prompt (JSON_stringify e) m userMsg =
              chat_profile (JSON_stringify e) m @ ''Conversation so far:'' @ nl @ nl
                @ ''User: '' @ userMsg @ nl @ ''Assistant:'')
       \<and> (h = [] \<and> (prof m = None \<or> (\<exists>p. prof m = Some p \<and> \<not> truthy p)) \<longrightarrow>
            chat_prompt (JSON_stringify e) m userMsg =
              ''Conversation so far:'' @ nl @ nl @ ''User: '' @ userMsg @ nl @ ''Assistant:''
            \<and> \<not> prefix ''User profile: '' (chat_prompt (JSON_stringify e) m userMsg))"
proof -
  let ?S = "JSON_stringify e"
  have hist: "chat_history m = join nl h"
    by (simp add: chat_history_def turns)
  have "take 2 (snd (chat e userId userMsg)) = [get_call userId, LlmChat (chat_prompt ?S m userMsg)]"
    using got parsed by (simp add: chat_def Let_def split: sum.split)
  then have sent: "take 2 (snd (chat e userId userMsg)) =
      [DoFetch userId ''https://do/get'' (OpGet userId),
       LlmChat (chat_profile ?S m @ ''Conversation so far:'' @ nl @ join nl h @ nl
         @ ''User: '' @ userMsg @ nl @ ''Assistant:'')]"
    by (simp add: chat_prompt_def hist get_call_def)
  have line: "chat_profile ?S m = []
      \<or> (\<exists>p. prof m = Some p \<and> truthy p \<and> chat_profile ?S m = ''User profile: '' @ ?S p @ nl)"
    by (simp add: chat_profile_def split: option.split)
  have rendered: "\<forall>p. prof m = Some p \<and> truthy p \<longrightarrow>
      chat_profile ?S m = ''User profile: '' @ ?S p @ nl"
    by (simp add: chat_profile_def)
  have lines: "h \<noteq> [] \<longrightarrow> split_lines (join nl h) = concat (map split_lines h)"
    using split_lines_join by blast
  have per_line: "(\<forall>t\<in>set h. CHR 0x0A \<notin> set t) \<and> h \<noteq> [] \<longrightarrow> split_lines (join nl h) = h"
    using split_lines_join [of h] split_lines_turns [of h] by simp
  have no_turns: "chat_prompt ?S m userMsg =
      chat_profile ?S m @ ''Conversation so far:'' @ nl @ nl @ ''User: '' @ userMsg @ nl @ ''Assistant:''"
    if "h = []"
    using that by (simp add: chat_prompt_def hist)
  have bare: "chat_prompt ?S m userMsg =
        ''Conversation so far:'' @ nl @ nl @ ''User: '' @ userMsg @ nl @ ''Assistant:''
      \<and> \<not> prefix ''User profile: '' (chat_prompt ?S m userMsg)"
    if "h = []" and "prof m = None \<or> (\<exists>p. prof m = Some p \<and> \<not> truthy p)"
  proof -
    have "chat_profile ?S m = []"
      using that(2) by (auto simp add: chat_profile_def)
    then have "chat_prompt ?S m userMsg =
        ''Conversation so far:'' @ nl @ nl @ ''User: '' @ userMsg @ nl @ ''Assistant:''"
      using no_turns [OF that(1)] by simp
    then show ?thesis
      by simp
  qed
  show ?thesis
    using sent line rendered lines per_line chat_item_two_lines [of userMsg answer]
      chat_prompt_suffix [of userMsg ?S m] no_turns bare
    by blast
qed

theorem chat_prompt_structure_witness:
  "take 2 (snd (chat (scenario (replied \<lparr>prof = Some (JObj []), hist = Some [''a'', ''b'']\<rparr>)
      (Inr ''hi'') (replied empty_mem)) ''u1'' ''hello'')) =
     [DoFetch ''u1'' ''https://do/get'' (OpGet ''u1''),
      LlmChat (''User profile: {}'' @ nl @ ''Conversation so far:'' @ nl @ ''a'' @ nl @ ''b'' @ nl
        @ ''User: hello'' @ nl @ ''Assistant:'')]
   \<and> split_lines (join nl [''a'', ''b'']) = concat (map split_lines [''a'', ''b''])
   \<and> split_lines (join nl [''a'', ''b'']) = [''a'', ''b'']
   \<and> chat_prompt (JSON_stringify plain) empty_mem ''hello'' =
       ''Conversation so far:'' @ nl @ nl @ ''User: hello'' @ nl @ ''Assistant:''
   \<and> \<not> prefix ''User profile: '' (chat_prompt (JSON_stringify plain) empty_mem ''hello'')"
proof -
  let ?m = "\<lparr>prof = Some (JObj []), hist = Some [''a'', ''b'']\<rparr>"
  let ?e = "scenario (replied ?m) (Inr ''hi'') (replied empty_mem)"
  have got: "MEMORY_DO_fetch ?e ''u1'' ''https://do/get'' (OpGet ''u1'') =
      Inr \<lparr>do_status = 200, json = Inr ?m\<rparr>"
    by (simp add: scenario_def replied_def)
  have parsed: "json \<lparr>do_status = 200, json = Inr ?m\<rparr> = Inr ?m"
    by simp
  have turns: "[''a'', ''b''] = (case hist ?m of None \<Rightarrow> [] | Some ts \<Rightarrow> ts)"
    by simp
  have single: "(\<forall>t\<in>set [''a'', ''b'']. CHR 0x0A \<notin> set t) \<and> [''a'', ''b''] \<noteq> []"
    by simp
  have some: "[''a'', ''b''] \<noteq> ([] :: string list)"
    by simp
  have truthy: "prof ?m = Some (JObj []) \<and> truthy (JObj [])"
    by simp
  have S: "JSON_stringify ?e (JObj []) = ''{}''"
    by (simp add: scenario_def)
  note first = chat_prompt_structure [OF got parsed turns, of "''hello''"]
  have line: "chat_profile (JSON_stringify ?e) ?m = ''User profile: '' @ ''{}'' @ nl"
    using first truthy S by metis
  have "take 2 (snd (chat ?e ''u1'' ''hello'')) =
     [DoFetch ''u1'' ''https://do/get'' (OpGet ''u1''),
      LlmChat (chat_profile (JSON_stringify ?e) ?m @ ''Conversation so far:'' @ nl
        @ join nl [''a'', ''b''] @ nl @ ''User: '' @ ''hello'' @ nl @ ''Assistant:'')]"
    using first by blast
  then have sent: "take 2 (snd (chat ?e ''u1'' ''hello'')) =
     [DoFetch ''u1'' ''https://do/get'' (OpGet ''u1''),
      LlmChat (''User profile: {}'' @ nl @ ''Conversation so far:'' @ nl @ ''a'' @ nl @ ''b'' @ nl
        @ ''User: hello'' @ nl @ ''Assistant:'')]"
    by (simp add: line)
  have lines: "split_lines (join nl [''a'', ''b'']) = concat (map split_lines [''a'', ''b''])"
    using first some by blast
  have per_line: "split_lines (join nl [''a'', ''b'']) = [''a'', ''b'']"
    using first single by blast
  have got0: "MEMORY_DO_fetch plain ''u1'' ''https://do/get'' (OpGet ''u1'') =
      Inr \<lparr>do_status = 200, json = Inr empty_mem\<rparr>"
    by (simp add: plain_def scenario_def replied_def)
  have parsed0: "json \<lparr>do_status = 200, json = Inr empty_mem\<rparr> = Inr empty_mem"
    by simp
  have turns0: "[] = (case hist empty_mem of None \<Rightarrow> [] | Some ts \<Rightarrow> ts)"
    by (simp add: empty_mem_def)
  have none0: "prof empty_mem = None \<or> (\<exists>p. prof empty_mem = Some p \<and> \<not> truthy p)"
    by (simp add: empty_mem_def)
  have bare: "chat_prompt (JSON_stringify plain) empty_mem ''hello'' =
       ''Conversation so far:'' @ nl @ nl @ ''User: '' @ ''hello'' @ nl @ ''Assistant:''
     \<and> \<not> prefix ''User profile: '' (chat_prompt (JSON_stringify plain) empty_mem ''hello'')"
    using chat_prompt_structure [OF got0 parsed0 turns0, of "''hello''"] none0 by blast
  then have bare': "chat_prompt (JSON_stringify plain) empty_mem ''hello'' =
       ''Conversation so far:'' @ nl @ nl @ ''User: hello'' @ nl @ ''Assistant:''"
    by simp
  show ?thesis
    using sent lines per_line bare bare' by blast
qed

end
